theory Spec2Isabelle
  imports Complex_Main
begin

section \<open>JavaScript values read by the Normalizer\<close>

text \<open>
  The raw data handed to \<open>transformNeo4jData\<close> is whatever \<open>JSON.parse\<close> (or a caller)
  produced.  An object is the list of its own properties; strings are byte lists (UTF-8).

  The program does three things with a number: it compares it with other numbers (as an
  element of a \<open>Set\<close>), it tests it for being falsy, and it prints it with
  \<open>Number.prototype.toString\<close>.  A number is therefore represented by the string that
  \<open>toString\<close> returns for it: \<open>1\<close> by \<open>''1''\<close>, \<open>-13\<close> by \<open>''-13''\<close>, \<open>1.5\<close> by
  \<open>''1.5''\<close>, \<open>1e21\<close> by \<open>''1e+21''\<close>, \<open>NaN\<close> by \<open>''NaN''\<close>.  The language prints two
  numbers alike only when they are the two zeros, which a \<open>Set\<close> and the falsy test do not
  tell apart either, so equal representations are exactly the numbers a \<open>Set\<close> holds once.
  Only such canonical strings stand for numbers; the theorems hold for every string.
\<close>

datatype jsnum = Number string

datatype jsval =
    JUndefined
  | JNull
  | JBool bool
  | JNum jsnum
  | JStr string
  | JArr "jsval list"
  | JObj "(string \<times> jsval) list"

text \<open>Exceptions that the modelled code can raise or receive.\<close>

datatype exn =
    NotArrayError            \<comment> \<open>\<open>new Error('...')\<close> thrown for a non-array input\<close>
  | TypeError                \<comment> \<open>property read on \<open>null\<close>/\<open>undefined\<close>, call of a non-function\<close>
  | SyntaxError              \<comment> \<open>\<open>response.json()\<close> on a body that is not JSON\<close>
  | NetworkError             \<comment> \<open>\<open>fetch\<close> rejected\<close>
  | HttpError nat            \<comment> \<open>\<open>new Error(`HTTP ...: ${response.status}`)\<close>\<close>
  | NodeNotFound string      \<comment> \<open>the link force cannot resolve an endpoint\<close>

text \<open>The console: which method was called, with which fixed message, on which value.\<close>

datatype message =
  Invalid_relation | Transform_failed | No_valid_nodes | Render_failed | Render_error

datatype console_entry =
    Console_warn message "jsval option"
  | Console_error message exn

type_synonym console = "console_entry list"

fun is_warn :: "console_entry \<Rightarrow> bool" where
  "is_warn (Console_warn m v) = True"
| "is_warn (Console_error m e) = False"

fun is_error :: "console_entry \<Rightarrow> bool" where
  "is_error (Console_warn m v) = False"
| "is_error (Console_error m e) = True"

text \<open>\<open>!v\<close> is true exactly for the falsy values.\<close>

fun truthy :: "jsval \<Rightarrow> bool" where
  "truthy JUndefined = False"
| "truthy JNull = False"
| "truthy (JBool b) = b"
| "truthy (JNum n) = (n \<noteq> Number ''0'' \<and> n \<noteq> Number ''NaN'')"
| "truthy (JStr s) = (s \<noteq> [])"
| "truthy (JArr xs) = True"
| "truthy (JObj kvs) = True"

text \<open>
  \<open>v.k\<close> for the keys the program reads (\<open>Source\<close>, \<open>Target\<close>, \<open>RelationshipType\<close>):
  a read on \<open>null\<close> or \<open>undefined\<close> throws, a read on an object finds the own property or
  gives \<open>undefined\<close>, a read on any other value gives \<open>undefined\<close>.
\<close>

fun get_prop :: "jsval \<Rightarrow> string \<Rightarrow> exn + jsval" where
  "get_prop JUndefined k = Inl TypeError"
| "get_prop JNull k = Inl TypeError"
| "get_prop (JObj kvs) k = Inr (case map_of kvs k of None \<Rightarrow> JUndefined | Some v \<Rightarrow> v)"
| "get_prop v k = Inr JUndefined"

subsection \<open>Number and value to string\<close>

text \<open>\<open>Number.prototype.toString\<close>, and so also \<open>`${n}`\<close>, on the representation.\<close>

fun Number_toString :: "jsnum \<Rightarrow> string" where
  "Number_toString (Number s) = s"

text \<open>Sequencing of computations that may throw: the first exception wins.\<close>

fun sequence_exn :: "(exn + 'b) list \<Rightarrow> exn + 'b list" where
  "sequence_exn [] = Inr []"
| "sequence_exn (r # rs) =
     (case r of
        Inl e \<Rightarrow> Inl e
      | Inr y \<Rightarrow> (case sequence_exn rs of Inl e \<Rightarrow> Inl e | Inr ys \<Rightarrow> Inr (y # ys)))"

text \<open>\<open>xs.map(f)\<close> where \<open>f\<close> may throw: elements are visited left to right.\<close>

definition map_exn :: "('a \<Rightarrow> exn + 'b) \<Rightarrow> 'a list \<Rightarrow> exn + 'b list" where
  "map_exn f xs = sequence_exn (map f xs)"

fun join_comma :: "string list \<Rightarrow> string" where
  "join_comma [] = []"
| "join_comma [s] = s"
| "join_comma (s # t # ss) = s @ CHR '','' # join_comma (t # ss)"

text \<open>
  \<open>v.toString()\<close>.  On \<open>null\<close>/\<open>undefined\<close> the method read throws.  An array joins its
  elements with commas, \<open>null\<close> and \<open>undefined\<close> elements printing as the empty string.
  A plain object prints as \<open>[object Object]\<close> unless it has an own property \<open>toString\<close>,
  which in parsed data is never a function, so the call throws.
\<close>

fun js_toString :: "jsval \<Rightarrow> exn + string" where
  "js_toString JUndefined = Inl TypeError"
| "js_toString JNull = Inl TypeError"
| "js_toString (JBool b) = Inr (if b then ''true'' else ''false'')"
| "js_toString (JNum n) = Inr (Number_toString n)"
| "js_toString (JStr s) = Inr s"
| "js_toString (JArr xs) =
     (case sequence_exn
             (map (\<lambda>x. if x = JUndefined \<or> x = JNull then Inr [] else js_toString x) xs) of
        Inl e \<Rightarrow> Inl e
      | Inr ss \<Rightarrow> Inr (join_comma ss))"
| "js_toString (JObj kvs) =
     (if ''toString'' \<in> fst ` set kvs then Inl TypeError else Inr ''[object Object]'')"


section \<open>The Data Normalizer: \<open>transformNeo4jData\<close>\<close>

text \<open>
  The same function body appears twice in the repository (the component file and the
  batch conversion script); one definition models both.
\<close>

record node =
  id_node :: string
  label :: string
  type_node :: string

record link =
  source :: string
  target :: string
  type_link :: jsval

record graph =
  nodes :: "node list"
  links :: "link list"

definition empty_graph :: graph where
  "empty_graph = \<lparr>nodes = [], links = []\<rparr>"

text \<open>The default relationship tag, the two-character literal of the source in UTF-8.\<close>

definition related_tag :: string where
  "related_tag = [CHR 0xE5, CHR 0x85, CHR 0xB3, CHR 0xE8, CHR 0x81, CHR 0x94]"

text \<open>\<open>nodeIds.add(v)\<close> on a \<open>Set\<close>, which iterates in insertion order.\<close>

definition Set_add :: "jsnum \<Rightarrow> jsnum list \<Rightarrow> jsnum list" where
  "Set_add v s = (if v \<in> set s then s else s @ [v])"

text \<open>
  The guard of the \<open>forEach\<close> callback, read left to right with short-circuit \<open>||\<close>:
  \<open>!rel || typeof rel.Source !== 'number' || typeof rel.Target !== 'number'\<close>.
  A record passes when it is truthy and both reads yield a number; the numbers are returned.
\<close>

definition numeric_endpoints :: "jsval \<Rightarrow> (jsnum \<times> jsnum) option" where
  "numeric_endpoints rel =
     (if \<not> truthy rel then None
      else case get_prop rel ''Source'' of
             Inr (JNum s) \<Rightarrow>
               (case get_prop rel ''Target'' of
                  Inr (JNum t) \<Rightarrow> Some (s, t)
                | _ \<Rightarrow> None)
           | _ \<Rightarrow> None)"

text \<open>One call of the \<open>forEach\<close> callback on the set of ids and the console.\<close>

definition forEach_rel :: "jsval \<Rightarrow> jsnum list \<times> console \<Rightarrow> jsnum list \<times> console" where
  "forEach_rel rel st =
     (case numeric_endpoints rel of
        None \<Rightarrow> (fst st, snd st @ [Console_warn Invalid_relation (Some rel)])
      | Some (s, t) \<Rightarrow> (Set_add t (Set_add s (fst st)), snd st))"

definition node_of :: "jsnum \<Rightarrow> node" where
  "node_of i =
     \<lparr>id_node = Number_toString i, label = ''Node '' @ Number_toString i,
      type_node = ''Entity''\<rparr>"

text \<open>
  The callback of \<open>rawData.map\<close> that builds a link.  It is applied to every element of
  the raw array; each property read and each \<open>toString\<close> call may throw.
\<close>

definition link_of :: "jsval \<Rightarrow> exn + link" where
  "link_of rel =
     (case get_prop rel ''Source'' of
        Inl e \<Rightarrow> Inl e
      | Inr s \<Rightarrow>
     (case js_toString s of
        Inl e \<Rightarrow> Inl e
      | Inr src \<Rightarrow>
     (case get_prop rel ''Target'' of
        Inl e \<Rightarrow> Inl e
      | Inr t \<Rightarrow>
     (case js_toString t of
        Inl e \<Rightarrow> Inl e
      | Inr tgt \<Rightarrow>
     (case get_prop rel ''RelationshipType'' of
        Inl e \<Rightarrow> Inl e
      | Inr ty \<Rightarrow>
          Inr \<lparr>source = src, target = tgt,
               type_link = (if truthy ty then ty else JStr related_tag)\<rparr>)))))"

text \<open>\<open>Array.isArray\<close>.\<close>

fun isArray :: "jsval \<Rightarrow> bool" where
  "isArray (JArr xs) = True"
| "isArray v = False"

text \<open>
  The \<open>try\<close> block: the value it returns or the exception it throws, and the console.
  The first branch is the path on which \<open>Array.isArray(rawData)\<close> holds.
\<close>

definition try_block :: "jsval \<Rightarrow> console \<Rightarrow> (exn + graph) \<times> console" where
  "try_block rawData c =
     (case rawData of
        JArr rels \<Rightarrow>
          (let (nodeIds, c') = fold forEach_rel rels ([], c);
               ns = map node_of nodeIds
           in case map_exn link_of rels of
                Inl e \<Rightarrow> (Inl e, c')
              | Inr ls \<Rightarrow> (Inr \<lparr>nodes = ns, links = ls\<rparr>, c'))
      | _ \<Rightarrow> (Inl NotArrayError, c))"

text \<open>
  The whole function: the \<open>catch\<close> clause logs through \<open>console.error\<close> and returns the
  empty graph.  The result is a sum so that "does not throw" is a statement about it.
\<close>

definition transformNeo4jData :: "jsval \<Rightarrow> console \<Rightarrow> (exn + graph) \<times> console" where
  "transformNeo4jData rawData c =
     (case try_block rawData c of
        (Inl e, c') \<Rightarrow> (Inr empty_graph, c' @ [Console_error Transform_failed e])
      | (Inr g, c') \<Rightarrow> (Inr g, c'))"

text \<open>
  The reading of the specification used for comparison: the endpoints of the records with
  two numeric endpoints, in record order, and the order of first encounter in a sequence.
\<close>

definition endpoints :: "jsval list \<Rightarrow> jsnum list" where
  "endpoints rels =
     concat (map (\<lambda>rel. case numeric_endpoints rel of None \<Rightarrow> [] | Some (s, t) \<Rightarrow> [s, t]) rels)"

fun first_encounter :: "'a list \<Rightarrow> 'a list" where
  "first_encounter [] = []"
| "first_encounter (x # xs) = x # filter (\<lambda>y. y \<noteq> x) (first_encounter xs)"


text \<open>The warnings the \<open>forEach\<close> loop prints for a raw array, in order.\<close>

definition warnings :: "jsval list \<Rightarrow> console" where
  "warnings rels =
     map (\<lambda>rel. Console_warn Invalid_relation (Some rel))
         (filter (\<lambda>rel. numeric_endpoints rel = None) rels)"

section \<open>The visualization component\<close>

text \<open>
  Both component files build the same view from a graph.  What the component leaves
  behind is its console, the simulations it has created (with the links of their link
  force, whether their timer runs and whether a tick listener is registered), and the
  groups it has appended to the \<open>svg\<close> element.  Presentation attributes (radius,
  fill, stroke width, font) do not influence any control flow and are left out.
\<close>

record simulation =
  sim_nodes :: "node list"
  sim_links :: "link list"
  alphaTarget :: real
  running :: bool
  tick_listener :: bool

datatype svg_group =
    Lines "link list"
  | Circles "node list"
  | Texts "string list"

record view =
  console_of :: console
  simulations :: "simulation list"
  svg :: "svg_group list"

definition empty_view :: view where
  "empty_view = \<lparr>console_of = [], simulations = [], svg = []\<rparr>"

text \<open>
  Modelled from the spec: the identifier resolution that the link force performs when it
  is attached to the simulation (\<open>d3.forceLink(...).id(d => d.id)\<close>, library code that
  is not part of the repository).  The specification makes an endpoint that names no
  node a setup-time fatal error; links are visited in order, source before target.
\<close>

fun resolve_links :: "string list \<Rightarrow> link list \<Rightarrow> exn + link list" where
  "resolve_links ids [] = Inr []"
| "resolve_links ids (l # ls) =
     (if source l \<notin> set ids then Inl (NodeNotFound (source l))
      else if target l \<notin> set ids then Inl (NodeNotFound (target l))
      else case resolve_links ids ls of Inl e \<Rightarrow> Inl e | Inr rs \<Rightarrow> Inr (l # rs))"

text \<open>
  Modelled from the spec: the creation of the engine (\<open>d3.forceSimulation(data.nodes)\<close>,
  library code that is not part of the repository).  The specification's engine begins
  with its energy at 1.0, that is, in state Running: a simulation runs from its creation
  on, with target alpha 0, no force and no listener yet.
\<close>

definition forceSimulation :: "node list \<Rightarrow> simulation" where
  "forceSimulation ns =
     \<lparr>sim_nodes = ns, sim_links = [], alphaTarget = 0, running = True, tick_listener = False\<rparr>"

definition label_text :: "node \<Rightarrow> string" where
  "label_text d = label d @ '' ['' @ type_node d @ '']''"

text \<open>
  The statements from the force set-up to the tick subscription, common to both
  component files.  \<open>d3.forceSimulation(data.nodes)\<close> is evaluated first, so the
  simulation exists and runs before the link force is attached; when the link force
  throws, that simulation stays behind without forces and without listener, nothing has
  been appended to the drawing, and the exception leaves the block.  Otherwise the forces
  are attached, the groups are appended and the tick listener is registered.  \<open>cur\<close>
  tells whether \<open>svgRef.current\<close> is an element: selecting \<open>null\<close> yields a
  selection on which every append is without effect.
\<close>

definition render_data :: "bool \<Rightarrow> graph \<Rightarrow> view \<Rightarrow> (exn + unit) \<times> view" where
  "render_data cur data v =
     (let simulation = forceSimulation (nodes data)
      in case resolve_links (map id_node (nodes data)) (links data) of
        Inl e \<Rightarrow> (Inl e, v\<lparr>simulations := simulations v @ [simulation]\<rparr>)
      | Inr ls \<Rightarrow>
          (Inr (),
           v\<lparr>simulations := simulations v @
                [simulation\<lparr>sim_links := ls, tick_listener := True\<rparr>],
             svg := svg v @
                (if cur
                 then [Lines ls, Circles (nodes data), Texts (map label_text (nodes data))]
                 else [])\<rparr>))"

record 'a response =
  ok :: bool
  status :: nat
  json :: "exn + 'a"

text \<open>
  \<open>renderGraph\<close> of the component that normalizes raw rows, from the point where the
  awaited \<open>fetch\<close> settles: \<open>Inl\<close> is a rejection.  The two awaits are taken as one step.
\<close>

definition renderGraph_try ::
    "bool \<Rightarrow> exn + jsval response \<Rightarrow> view \<Rightarrow> (exn + unit) \<times> view" where
  "renderGraph_try cur fetched v =
     (case fetched of
        Inl e \<Rightarrow> (Inl e, v)
      | Inr response \<Rightarrow>
          if \<not> ok response then (Inl (HttpError (status response)), v)
          else case json response of
                 Inl e \<Rightarrow> (Inl e, v)
               | Inr rawData \<Rightarrow>
                   (case transformNeo4jData rawData (console_of v) of
                      (Inl e, c) \<Rightarrow> (Inl e, v\<lparr>console_of := c\<rparr>)
                    | (Inr data, c) \<Rightarrow>
                        if nodes data = []
                        then (Inr (), v\<lparr>console_of := c @ [Console_warn No_valid_nodes None]\<rparr>)
                        else render_data cur data (v\<lparr>console_of := c\<rparr>)))"

definition renderGraph_resume :: "bool \<Rightarrow> exn + jsval response \<Rightarrow> view \<Rightarrow> view" where
  "renderGraph_resume cur fetched v =
     (case renderGraph_try cur fetched v of
        (Inl e, v') \<Rightarrow> v'\<lparr>console_of := console_of v' @ [Console_error Render_failed e]\<rparr>
      | (Inr u, v') \<Rightarrow> v')"

text \<open>The whole of \<open>renderGraph\<close>: it returns at once when \<open>svgRef.current\<close> is empty.\<close>

definition renderGraph :: "bool \<Rightarrow> exn + jsval response \<Rightarrow> view \<Rightarrow> view" where
  "renderGraph cur fetched v = (if \<not> cur then v else renderGraph_resume cur fetched v)"

text \<open>
  \<open>loadAndRender\<close> of the typed component, which reads the graph itself from the
  response: the body is a graph by its type assertion, the status is not looked at.
\<close>

definition loadAndRender_try ::
    "bool \<Rightarrow> exn + graph response \<Rightarrow> view \<Rightarrow> (exn + unit) \<times> view" where
  "loadAndRender_try cur fetched v =
     (case fetched of
        Inl e \<Rightarrow> (Inl e, v)
      | Inr response \<Rightarrow>
          (case json response of
             Inl e \<Rightarrow> (Inl e, v)
           | Inr data \<Rightarrow> if nodes data = [] then (Inr (), v) else render_data cur data v))"

definition loadAndRender_resume :: "bool \<Rightarrow> exn + graph response \<Rightarrow> view \<Rightarrow> view" where
  "loadAndRender_resume cur fetched v =
     (case loadAndRender_try cur fetched v of
        (Inl e, v') \<Rightarrow> v'\<lparr>console_of := console_of v' @ [Console_error Render_error e]\<rparr>
      | (Inr u, v') \<Rightarrow> v')"

definition loadAndRender :: "bool \<Rightarrow> exn + graph response \<Rightarrow> view \<Rightarrow> view" where
  "loadAndRender cur fetched v = (if \<not> cur then v else loadAndRender_resume cur fetched v)"


section \<open>The drag handlers\<close>

text \<open>
  The three listeners registered on \<open>d3.drag()\<close> are the same in both component files.
  They receive the drag event and the datum \<open>d\<close> of the dragged circle and act on \<open>d\<close> and
  on the simulation of the enclosing closure.  \<open>event.active\<close> is the number of other
  drag gestures in progress; \<open>null\<close> in a pin field is \<open>None\<close>.
\<close>

record drag_event =
  event_active :: nat
  event_x :: real
  event_y :: real

record datum =
  node_x :: real
  node_y :: real
  fx :: "real option"
  fy :: "real option"

text \<open>\<open>simulation.alphaTarget(a)\<close> and \<open>simulation.restart()\<close>.\<close>

definition set_alphaTarget :: "real \<Rightarrow> simulation \<Rightarrow> simulation" where
  "set_alphaTarget a sim = sim\<lparr>alphaTarget := a\<rparr>"

definition restart :: "simulation \<Rightarrow> simulation" where
  "restart sim = sim\<lparr>running := True\<rparr>"

definition on_start :: "drag_event \<Rightarrow> simulation \<times> datum \<Rightarrow> simulation \<times> datum" where
  "on_start event st =
     (let sim = fst st; d = snd st;
          sim' = (if event_active event = 0 then restart (set_alphaTarget 0.3 sim) else sim)
      in (sim', d\<lparr>fx := Some (node_x d), fy := Some (node_y d)\<rparr>))"

definition on_drag :: "drag_event \<Rightarrow> simulation \<times> datum \<Rightarrow> simulation \<times> datum" where
  "on_drag event st =
     (let sim = fst st; d = snd st
      in (sim, d\<lparr>fx := Some (event_x event), fy := Some (event_y event)\<rparr>))"

definition on_end :: "drag_event \<Rightarrow> simulation \<times> datum \<Rightarrow> simulation \<times> datum" where
  "on_end event st =
     (let sim = fst st; d = snd st;
          sim' = (if event_active event = 0 then set_alphaTarget 0 sim else sim)
      in (sim', d\<lparr>fx := None, fy := None\<rparr>))"

section \<open>The effect and the events around it\<close>

text \<open>
  The component's effect depends on \<open>dataUrl\<close> and returns nothing, so the framework has
  no cleanup to run when the dependency changes or the component unmounts.  The events
  below are the ones the runtime can deliver to the normalizing component: mounting, a
  new \<open>dataUrl\<close> property, unmounting, the settling of an awaited fetch, and a timer
  tick of one of the simulations.  \<open>inflight\<close> holds, for every call of \<open>renderGraph\<close>
  suspended at its fetch, the \<open>dataUrl\<close> its closure captured; \<open>history\<close> records what
  reached the view.
\<close>

datatype observation =
    Commit string      \<comment> \<open>the load started for this url subscribed its simulation and drew\<close>
  | Tick_delivered nat \<comment> \<open>the tick listener of this simulation ran\<close>

record component =
  dataUrl :: string
  svgRef :: bool
  inflight :: "string list"
  view_of :: view
  history :: "observation list"

datatype event =
    Mount
  | SetDataUrl string
  | Unmount
  | Settled nat "exn + jsval response"
  | Tick nat

definition initial :: "string \<Rightarrow> component" where
  "initial u =
     \<lparr>dataUrl = u, svgRef = False, inflight = [], view_of = empty_view, history = []\<rparr>"

text \<open>
  Running the effect: \<open>renderGraph()\<close> executes up to its first await, that is, it
  returns when \<open>svgRef.current\<close> is empty and otherwise issues \<open>fetch(dataUrl)\<close>.
\<close>

definition useEffect_run :: "component \<Rightarrow> component" where
  "useEffect_run s = (if svgRef s then s\<lparr>inflight := inflight s @ [dataUrl s]\<rparr> else s)"

definition remove_nth :: "nat \<Rightarrow> 'a list \<Rightarrow> 'a list" where
  "remove_nth i xs = take i xs @ drop (Suc i) xs"

fun step :: "event \<Rightarrow> component \<Rightarrow> component" where
  "step Mount s = useEffect_run (s\<lparr>svgRef := True\<rparr>)"
| "step (SetDataUrl u) s =
     (if \<not> svgRef s \<or> u = dataUrl s then s else useEffect_run (s\<lparr>dataUrl := u\<rparr>))"
| "step Unmount s = s\<lparr>svgRef := False\<rparr>"
| "step (Settled i fetched) s =
     (if i < length (inflight s)
      then let v' = renderGraph_resume (svgRef s) fetched (view_of s)
           in s\<lparr>inflight := remove_nth i (inflight s),
                view_of := v',
                history := history s @
                  (if length (filter tick_listener (simulations (view_of s)))
                        < length (filter tick_listener (simulations v'))
                   then [Commit (inflight s ! i)] else [])\<rparr>
      else s)"
| "step (Tick i) s =
     (if i < length (simulations (view_of s)) \<and> tick_listener (simulations (view_of s) ! i)
      then s\<lparr>history := history s @ [Tick_delivered i]\<rparr>
      else s)"

definition run :: "event list \<Rightarrow> component \<Rightarrow> component" where
  "run evs s = fold step evs s"


section \<open>Fixtures\<close>

text \<open>Concrete rows, graphs, responses and drag states on which the theorems are run.\<close>

definition row :: "jsval \<Rightarrow> jsval \<Rightarrow> jsval" where
  "row s t = JObj [(''Source'', s), (''Target'', t)]"

definition entity :: "string \<Rightarrow> node" where
  "entity i = \<lparr>id_node = i, label = ''Node '' @ i, type_node = ''Entity''\<rparr>"

definition knows :: "string \<Rightarrow> string \<Rightarrow> link" where
  "knows a b = \<lparr>source = a, target = b, type_link = JStr ''KNOWS''\<rparr>"




definition ok_response :: "'a \<Rightarrow> exn + 'a response" where
  "ok_response body = Inr \<lparr>ok = True, status = 200, json = Inr body\<rparr>"

definition settled_sim :: simulation where
  "settled_sim =
     \<lparr>sim_nodes = [], sim_links = [], alphaTarget = 0, running = False, tick_listener = True\<rparr>"

definition free_datum :: datum where
  "free_datum = \<lparr>node_x = 100, node_y = 200, fx = None, fy = None\<rparr>"

definition pointer :: "nat \<Rightarrow> real \<Rightarrow> real \<Rightarrow> drag_event" where
  "pointer n a b = \<lparr>event_active = n, event_x = a, event_y = b\<rparr>"

text \<open>The component after mounting on \<open>/a.json\<close> and receiving one valid row.\<close>

definition loaded :: component where
  "loaded =
     run [Mount, Settled 0 (ok_response (JArr [row (JNum (Number ''1'')) (JNum (Number ''2''))]))] (initial ''/a.json'')"

section \<open>Properties of the Normalizer\<close>

subsection \<open>Printing tells numbers apart\<close>

lemma Number_toString_inj: "Number_toString a = Number_toString b \<Longrightarrow> a = b"
  by (cases a, cases b) simp

lemma inj_Number_toString: "inj Number_toString"
  by (rule injI) (rule Number_toString_inj)

subsection \<open>The id set is the sequence of first encounters\<close>

lemma first_encounter_set: "set (first_encounter xs) = set xs"
  by (induction xs) auto

lemma first_encounter_distinct: "distinct (first_encounter xs)"
  by (induction xs) (auto simp: first_encounter_set)

lemma first_encounter_append:
  "first_encounter (xs @ ys) =
     first_encounter xs @ filter (\<lambda>y. y \<notin> set xs) (first_encounter ys)"
proof (induction xs)
  case Nil
  then show ?case by simp
next
  case (Cons x xs)
  have "filter (\<lambda>y. y \<noteq> x) (filter (\<lambda>y. y \<notin> set xs) (first_encounter ys))
      = filter (\<lambda>y. y \<notin> set (x # xs)) (first_encounter ys)"
    by (simp add: conj_commute) 
  with Cons show ?case by simp
qed

text \<open>The ids collected so far, as a sequence of add operations.\<close>

lemma Set_add_first_encounter:
  "Set_add v (first_encounter xs) = first_encounter (xs @ [v])"
  by (simp add: Set_add_def first_encounter_append first_encounter_set)

lemma forEach_rel_fst:
  "fst (forEach_rel rel (first_encounter xs, c)) = first_encounter (xs @ endpoints [rel])"
  by (cases "numeric_endpoints rel")
     (auto simp: forEach_rel_def endpoints_def Set_add_first_encounter)

lemma forEach_rel_snd:
  "snd (forEach_rel rel (ids, c)) =
     c @ (if numeric_endpoints rel = None then [Console_warn Invalid_relation (Some rel)] else [])"
  by (cases "numeric_endpoints rel") (auto simp: forEach_rel_def)

lemma endpoints_Cons: "endpoints (rel # rels) = endpoints [rel] @ endpoints rels"
  by (simp add: endpoints_def)

lemma fold_forEach_fst:
  "fst (fold forEach_rel rels (first_encounter xs, c)) = first_encounter (xs @ endpoints rels)"
proof (induction rels arbitrary: xs c)
  case Nil
  then show ?case by (simp add: endpoints_def)
next
  case (Cons rel rels)
  obtain c' where st: "forEach_rel rel (first_encounter xs, c) = (first_encounter (xs @ endpoints [rel]), c')"
    using forEach_rel_fst [of rel xs c] by (cases "forEach_rel rel (first_encounter xs, c)") simp
  show ?case
    using Cons.IH [of "xs @ endpoints [rel]" c'] st
    by (simp add: endpoints_Cons [of rel rels])
qed

lemma fold_forEach_snd:
  "snd (fold forEach_rel rels (ids, c)) = c @ warnings rels"
proof (induction rels arbitrary: ids c)
  case Nil
  then show ?case by (simp add: warnings_def)
next
  case (Cons rel rels)
  obtain ids' where st: "forEach_rel rel (ids, c) = (ids', snd (forEach_rel rel (ids, c)))"
    by (cases "forEach_rel rel (ids, c)") simp
  have "snd (fold forEach_rel (rel # rels) (ids, c)) = snd (fold forEach_rel rels (ids', snd (forEach_rel rel (ids, c))))"
    using st by simp
  also have "\<dots> = snd (forEach_rel rel (ids, c)) @ warnings rels" by (rule Cons.IH)
  finally show ?case by (simp add: forEach_rel_snd warnings_def)
qed

lemma fold_forEach:
  "fold forEach_rel rels ([], c) = (first_encounter (endpoints rels), c @ warnings rels)"
  using fold_forEach_fst [of rels "[]" c] fold_forEach_snd [of rels "[]" c]
  by (cases "fold forEach_rel rels ([], c)") simp

lemma map_exn_length: "map_exn f xs = Inr ys \<Longrightarrow> length ys = length xs"
  unfolding map_exn_def
  by (induction xs arbitrary: ys) (auto split: sum.splits)

lemma try_block_array:
  "try_block (JArr rels) c =
     (case map_exn link_of rels of
        Inl e \<Rightarrow> (Inl e, c @ warnings rels)
      | Inr ls \<Rightarrow> (Inr \<lparr>nodes = map node_of (first_encounter (endpoints rels)), links = ls\<rparr>,
                   c @ warnings rels))"
  by (simp add: try_block_def fold_forEach)

lemma transform_array:
  "transformNeo4jData (JArr rels) c =
     (case map_exn link_of rels of
        Inl e \<Rightarrow> (Inr empty_graph, c @ warnings rels @ [Console_error Transform_failed e])
      | Inr ls \<Rightarrow> (Inr \<lparr>nodes = map node_of (first_encounter (endpoints rels)), links = ls\<rparr>,
                   c @ warnings rels))"
  by (simp add: transformNeo4jData_def try_block_array split: sum.splits)

lemma transform_not_array:
  "\<not> isArray rawData \<Longrightarrow>
     transformNeo4jData rawData c = (Inr empty_graph, c @ [Console_error Transform_failed NotArrayError])"
  by (cases rawData) (simp_all add: transformNeo4jData_def try_block_def)

lemma transform_frame:
  "transformNeo4jData rawData c =
     (fst (transformNeo4jData rawData []), c @ snd (transformNeo4jData rawData []))"
proof (cases "isArray rawData")
  case True
  then obtain rels where "rawData = JArr rels" by (cases rawData) simp_all
  then show ?thesis by (simp add: transform_array split: sum.splits)
next
  case False
  then show ?thesis by (simp add: transform_not_array)
qed

lemma transform_total: "\<exists>g c'. transformNeo4jData rawData c = (Inr g, c')"
  by (auto simp: transformNeo4jData_def split: prod.splits sum.splits)



lemma map_exn_links_length:
  "map_exn link_of rels = Inr ls \<Longrightarrow>
     \<exists>g. transformNeo4jData (JArr rels) c = (Inr g, c @ warnings rels) \<and>
         length (links g) = length rels"
  by (simp add: transform_array map_exn_length)

lemma endpoints_origin:
  "i \<in> set (endpoints rels) \<Longrightarrow>
     \<exists>rel \<in> set rels. \<exists>s t. numeric_endpoints rel = Some (s, t) \<and> (i = s \<or> i = t)"
proof -
  assume "i \<in> set (endpoints rels)"
  then obtain rel where r: "rel \<in> set rels"
    and i: "i \<in> set (case numeric_endpoints rel of None \<Rightarrow> [] | Some (s, t) \<Rightarrow> [s, t])"
    by (auto simp: endpoints_def)
  then obtain s t where "numeric_endpoints rel = Some (s, t)" "i = s \<or> i = t"
    by (cases "numeric_endpoints rel") auto
  with r show ?thesis by blast
qed

lemma id_node_of: "id_node (node_of i) = Number_toString i"
  by (simp add: node_of_def)

text \<open>Unfolding the definitions on concrete inputs.\<close>

lemmas eval_defs = transformNeo4jData_def try_block_def forEach_rel_def numeric_endpoints_def
  Set_add_def node_of_def map_exn_def link_of_def empty_graph_def

subsection \<open>Link count (C1)\<close>

text \<open>
  C1.  The specification asks that the number of links equal the number of raw records
  with two numeric endpoints, and that \<open>[{Source:1,Target:2},{Source:"x",Target:2}]\<close>
  yield two nodes and one link.  The link callback is mapped over every element of the
  raw array, not over the records that passed the guard: on that input the Normalizer
  returns two nodes and two links, the second link having source \<open>x\<close>, and it has
  printed the warning for the record it then turns into a link.
\<close>

theorem C1_invalid_record_still_yields_link:
  "transformNeo4jData
     (JArr [JObj [(''Source'', JNum (Number ''1'')), (''Target'', JNum (Number ''2''))],
            JObj [(''Source'', JStr ''x''), (''Target'', JNum (Number ''2''))]]) []
   = (Inr \<lparr>nodes = [\<lparr>id_node = ''1'', label = ''Node 1'', type_node = ''Entity''\<rparr>,
                     \<lparr>id_node = ''2'', label = ''Node 2'', type_node = ''Entity''\<rparr>],
            links = [\<lparr>source = ''1'', target = ''2'', type_link = JStr related_tag\<rparr>,
                     \<lparr>source = ''x'', target = ''2'', type_link = JStr related_tag\<rparr>]\<rparr>,
      [Console_warn Invalid_relation (Some (JObj [(''Source'', JStr ''x''), (''Target'', JNum (Number ''2''))]))])"
  by (simp add: eval_defs)

subsection \<open>Records without numeric endpoints (C3)\<close>

text \<open>
  C3.  The specification asks that a record lacking a numeric endpoint be skipped with a
  warning, the remaining records still producing output.  The warning is printed, but the
  link callback then reads \<open>Source\<close> of a \<open>null\<close> record, or calls \<open>toString\<close> on a
  missing \<open>Source\<close>; the exception reaches the \<open>catch\<close> clause and the whole graph,
  the valid record included, is replaced by the empty graph.
\<close>

theorem C3_null_record_empties_graph:
  "transformNeo4jData (JArr [JObj [(''Source'', JNum (Number ''1'')), (''Target'', JNum (Number ''2''))], JNull]) []
     = (Inr \<lparr>nodes = [], links = []\<rparr>,
        [Console_warn Invalid_relation (Some JNull), Console_error Transform_failed TypeError])
   \<and> transformNeo4jData
       (JArr [JObj [(''Source'', JNum (Number ''1'')), (''Target'', JNum (Number ''2''))], JObj [(''Target'', JNum (Number ''2''))]]) []
     = (Inr \<lparr>nodes = [], links = []\<rparr>,
        [Console_warn Invalid_relation (Some (JObj [(''Target'', JNum (Number ''2''))])),
         Console_error Transform_failed TypeError])"
  by (simp add: eval_defs)

subsection \<open>Input that is not an array (C7)\<close>

text \<open>
  C7, as amended.  For every input value that is not an array the Normalizer returns the
  empty graph and does not throw; the one diagnostic it prints goes through
  \<open>console.error\<close>, not through \<open>console.warn\<close>.
\<close>

theorem C7_not_array:
  "\<not> isArray rawData \<Longrightarrow>
     transformNeo4jData rawData c
       = (Inr \<lparr>nodes = [], links = []\<rparr>, c @ [Console_error Transform_failed NotArrayError])"
  by (cases rawData) (simp_all add: transformNeo4jData_def try_block_def empty_graph_def)

theorem C7_not_array_witness:
  "\<not> isArray (JStr ''rows'') \<and>
   transformNeo4jData (JStr ''rows'') []
     = (Inr \<lparr>nodes = [], links = []\<rparr>, [Console_error Transform_failed NotArrayError])"
  using C7_not_array [of "JStr ''rows''" "[]"] by simp

text \<open>
  On the number \<open>5\<close> the console holds a single entry, written by \<open>console.error\<close>,
  and no warning.
\<close>

theorem C7_counterexample:
  "filter is_warn (snd (transformNeo4jData (JNum (Number ''5'')) [])) = []
   \<and> snd (transformNeo4jData (JNum (Number ''5'')) []) = [Console_error Transform_failed NotArrayError]"
  by (simp add: eval_defs)

subsection \<open>Node identifiers (C8)\<close>

text \<open>
  Whenever the link callback throws on no record, the node ids of the output are pairwise
  distinct, each is the printed form of the numeric \<open>Source\<close> or \<open>Target\<close> of a record
  that passed the guard, and the nodes stand in the order in which their endpoints are
  first met along the raw array.
\<close>

lemma node_ids_when_links_built:
  assumes ok: "map_exn link_of rels = Inr ls"
    and t: "transformNeo4jData (JArr rels) c = (Inr g, c')"
  shows "distinct (map id_node (nodes g)) \<and>
     (\<forall>n \<in> set (nodes g). \<exists>rel \<in> set rels. \<exists>s t.
         numeric_endpoints rel = Some (s, t) \<and>
         (id_node n = Number_toString s \<or> id_node n = Number_toString t)) \<and>
     map id_node (nodes g) = map Number_toString (first_encounter (endpoints rels))"
proof -
  from ok t have ns: "nodes g = map node_of (first_encounter (endpoints rels))"
    by (auto simp: transform_array)
  have ids: "map id_node (nodes g) = map Number_toString (first_encounter (endpoints rels))"
    by (simp add: ns id_node_of)
  have d: "distinct (map id_node (nodes g))"
    unfolding ids
    by (simp add: distinct_map first_encounter_distinct
          inj_on_subset [OF inj_Number_toString subset_UNIV])
  have o: "\<forall>n \<in> set (nodes g). \<exists>rel \<in> set rels. \<exists>s t.
       numeric_endpoints rel = Some (s, t) \<and>
       (id_node n = Number_toString s \<or> id_node n = Number_toString t)"
  proof
    fix n assume "n \<in> set (nodes g)"
    then obtain i where i: "i \<in> set (endpoints rels)" and n: "n = node_of i"
      by (auto simp: ns first_encounter_set)
    from endpoints_origin [OF i] obtain rel s t where
      "rel \<in> set rels" "numeric_endpoints rel = Some (s, t)" "i = s \<or> i = t" by blast
    then show "\<exists>rel \<in> set rels. \<exists>s t.
       numeric_endpoints rel = Some (s, t) \<and>
       (id_node n = Number_toString s \<or> id_node n = Number_toString t)"
      unfolding n by (auto simp: node_of_def)
  qed
  from d o ids show ?thesis by simp
qed

text \<open>
  C8.  The specification asks that every endpoint of a record with two numeric endpoints
  appear exactly once among the nodes, under the string form of its number, in the order
  of first encounter.  On \<open>[{Source:1,Target:2}, null]\<close> the first record passes the
  guard and its endpoints \<open>1\<close> and \<open>2\<close> are met in this order, but the link callback
  throws on the second element and the output is the empty graph: neither endpoint
  appears among the nodes.
\<close>

theorem C8_valid_endpoints_missing:
  "numeric_endpoints (JObj [(''Source'', JNum (Number ''1'')), (''Target'', JNum (Number ''2''))])
     = Some (Number ''1'', Number ''2'')
   \<and> first_encounter
       (endpoints [JObj [(''Source'', JNum (Number ''1'')), (''Target'', JNum (Number ''2''))], JNull])
     = [Number ''1'', Number ''2'']
   \<and> fst (transformNeo4jData
       (JArr [JObj [(''Source'', JNum (Number ''1'')), (''Target'', JNum (Number ''2''))], JNull]) [])
     = Inr \<lparr>nodes = [], links = []\<rparr>"
  by (simp add: eval_defs endpoints_def)

subsection \<open>Repeating the normalization (C9)\<close>

text \<open>
  C9.  Normalizing the same raw value twice in a row gives the same result: the second
  call, which runs on the console left by the first, returns the identical graph (same
  nodes, links, values and order) and prints the same diagnostics again.
\<close>

theorem C9_twice:
  "fst (transformNeo4jData rawData (snd (transformNeo4jData rawData c)))
     = fst (transformNeo4jData rawData c)
   \<and> snd (transformNeo4jData rawData (snd (transformNeo4jData rawData c)))
     = snd (transformNeo4jData rawData c) @ snd (transformNeo4jData rawData [])"
proof -
  let ?c1 = "snd (transformNeo4jData rawData c)"
  have "transformNeo4jData rawData ?c1
          = (fst (transformNeo4jData rawData []), ?c1 @ snd (transformNeo4jData rawData []))"
    by (rule transform_frame)
  moreover have "fst (transformNeo4jData rawData c) = fst (transformNeo4jData rawData [])"
    by (subst transform_frame) simp
  ultimately show ?thesis by simp
qed

subsection \<open>Totality (C10)\<close>

text \<open>
  C10.  For every input value and console, \<open>transformNeo4jData\<close> returns normally with
  a graph (a record of a node list and a link list), and whenever its \<open>try\<close> block
  throws, that graph is the empty graph.
\<close>

theorem C10_total:
  "\<exists>g c'. transformNeo4jData rawData c = (Inr g, c') \<and>
     (\<forall>e. fst (try_block rawData c) = Inl e \<longrightarrow> g = \<lparr>nodes = [], links = []\<rparr>)"
  by (auto simp: transformNeo4jData_def empty_graph_def split: prod.splits sum.splits)

theorem C10_total_witness:
  "fst (try_block (JArr [JNull]) []) = Inl TypeError \<and>
   (\<exists>c'. transformNeo4jData (JArr [JNull]) [] = (Inr \<lparr>nodes = [], links = []\<rparr>, c'))"
proof -
  have h: "fst (try_block (JArr [JNull]) []) = Inl TypeError"
    by (simp add: eval_defs)
  from C10_total [of "JArr [JNull]" "[]"] h show ?thesis by auto
qed


section \<open>Properties of the component\<close>

lemmas render_defs = renderGraph_def renderGraph_resume_def renderGraph_try_def
  loadAndRender_def loadAndRender_resume_def loadAndRender_try_def render_data_def
  forceSimulation_def label_text_def empty_view_def Let_def

lemmas event_defs = run_def initial_def useEffect_run_def remove_nth_def ok_response_def row_def

lemmas drag_defs = on_start_def on_drag_def on_end_def set_alphaTarget_def restart_def Let_def




lemma resolve_links_resolved:
  "\<forall>l \<in> set ls. source l \<in> set ids \<and> target l \<in> set ids \<Longrightarrow> resolve_links ids ls = Inr ls"
  by (induction ls) auto


lemma renderGraph_transport_failure:
  "fetched = Inl e \<or> (\<exists>r. fetched = Inr r \<and> \<not> ok r \<and> e = HttpError (status r)) \<Longrightarrow>
     renderGraph True fetched v = v\<lparr>console_of := console_of v @ [Console_error Render_failed e]\<rparr>"
  by (auto simp: renderGraph_def renderGraph_resume_def renderGraph_try_def)

lemma loadAndRender_rejected:
  "loadAndRender True (Inl e) v = v\<lparr>console_of := console_of v @ [Console_error Render_error e]\<rparr>"
  by (simp add: loadAndRender_def loadAndRender_resume_def loadAndRender_try_def)

subsection \<open>Unresolvable link endpoints (C4)\<close>




subsection \<open>Transport failures (C6)\<close>

text \<open>
  C6.  The specification asks that a response with a non-success status be treated as a
  transport failure: one diagnostic, nothing drawn.  \<open>renderGraph\<close> checks
  \<open>response.ok\<close> and does so (lemma \<open>renderGraph_transport_failure\<close>); \<open>loadAndRender\<close>
  never looks at the status.  On a response with status 500 whose body is a graph it
  draws that graph, subscribes a simulation and prints nothing.
\<close>

theorem C6_status_not_checked:
  "loadAndRender True
     (Inr \<lparr>ok = False, status = 500,
           json = Inr \<lparr>nodes = [entity ''1'', entity ''2''], links = [knows ''1'' ''2'']\<rparr>\<rparr>)
     empty_view
   = \<lparr>console_of = [],
      simulations = [\<lparr>sim_nodes = [entity ''1'', entity ''2''], sim_links = [knows ''1'' ''2''],
                      alphaTarget = 0, running = True, tick_listener = True\<rparr>],
      svg = [Lines [knows ''1'' ''2''], Circles [entity ''1'', entity ''2''],
             Texts [''Node 1 [Entity]'', ''Node 2 [Entity]'']]\<rparr>"
  by (simp add: render_defs entity_def knows_def)

section \<open>Properties of the drag handlers (C5)\<close>

lemma fold_on_drag_sim: "fst (fold on_drag moves st) = fst st"
  by (induction moves arbitrary: st) (simp_all add: drag_defs)

lemma fold_on_drag_pos:
  "node_x (snd (fold on_drag moves st)) = node_x (snd st) \<and>
   node_y (snd (fold on_drag moves st)) = node_y (snd st)"
  by (induction moves arbitrary: st) (simp_all add: drag_defs)

lemma fold_on_drag_pin:
  "moves \<noteq> [] \<Longrightarrow>
     fx (snd (fold on_drag moves st)) = Some (event_x (last moves)) \<and>
     fy (snd (fold on_drag moves st)) = Some (event_y (last moves))"
proof (induction moves arbitrary: st)
  case Nil
  then show ?case by simp
next
  case (Cons m ms)
  show ?case
  proof (cases "ms = []")
    case True
    then show ?thesis by (simp add: drag_defs)
  next
    case False
    with Cons.IH [of "on_drag m st"] show ?thesis by simp
  qed
qed

text \<open>
  C5, as amended.  For every dragged node and every gesture (a start, any number of
  moves, an end): the start sets \<open>fx, fy\<close> to the node's current \<open>x, y\<close> and, when no
  other gesture is active (\<open>event.active = 0\<close>), sets the target alpha to 0.3 and
  restarts the simulation; after the moves the pin is the pointer position of the last
  move; the end clears \<open>fx, fy\<close> and, when \<open>event.active = 0\<close>, sets the target alpha
  to 0.  The handlers never write \<open>x, y\<close>: after the release the node's position is
  the one it had when the gesture began, until a simulation tick moves it.
\<close>

theorem C5_drag_gesture:
  "(let s1 = on_start e1 (sim, d);
        s2 = fold on_drag moves s1;
        s3 = on_end e3 s2
    in fx (snd s1) = Some (node_x d) \<and> fy (snd s1) = Some (node_y d)
     \<and> (event_active e1 = 0 \<longrightarrow> alphaTarget (fst s1) = 0.3 \<and> running (fst s1))
     \<and> (moves \<noteq> [] \<longrightarrow> fx (snd s2) = Some (event_x (last moves))
                        \<and> fy (snd s2) = Some (event_y (last moves)))
     \<and> fx (snd s3) = None \<and> fy (snd s3) = None
     \<and> (event_active e3 = 0 \<longrightarrow> alphaTarget (fst s3) = 0)
     \<and> node_x (snd s3) = node_x d \<and> node_y (snd s3) = node_y d)"
proof -
  let ?s1 = "on_start e1 (sim, d)"
  let ?s2 = "fold on_drag moves ?s1"
  let ?s3 = "on_end e3 ?s2"
  have a: "fx (snd ?s1) = Some (node_x d) \<and> fy (snd ?s1) = Some (node_y d)"
    by (simp add: drag_defs)
  have b: "event_active e1 = 0 \<longrightarrow> alphaTarget (fst ?s1) = 0.3 \<and> running (fst ?s1)"
    by (simp add: drag_defs)
  have c: "moves \<noteq> [] \<longrightarrow> fx (snd ?s2) = Some (event_x (last moves))
                        \<and> fy (snd ?s2) = Some (event_y (last moves))"
    using fold_on_drag_pin [of moves ?s1] by blast
  have e: "fx (snd ?s3) = None \<and> fy (snd ?s3) = None"
    by (simp add: drag_defs)
  have f: "event_active e3 = 0 \<longrightarrow> alphaTarget (fst ?s3) = 0"
    by (simp add: drag_defs)
  have "node_x (snd ?s1) = node_x d \<and> node_y (snd ?s1) = node_y d"
    by (simp add: drag_defs)
  with fold_on_drag_pos [of moves ?s1]
  have "node_x (snd ?s2) = node_x d \<and> node_y (snd ?s2) = node_y d" by simp
  then have g: "node_x (snd ?s3) = node_x d \<and> node_y (snd ?s3) = node_y d"
    by (simp add: drag_defs)
  from a b c e f g show ?thesis unfolding Let_def by simp
qed

theorem C5_drag_gesture_witness:
  "event_active (pointer 0 100 200) = 0 \<and> [pointer 0 300 400, pointer 0 500 500] \<noteq> [] \<and>
   alphaTarget (fst (on_start (pointer 0 100 200) (settled_sim, free_datum))) = 0.3 \<and>
   fx (snd (fold on_drag [pointer 0 300 400, pointer 0 500 500]
              (on_start (pointer 0 100 200) (settled_sim, free_datum)))) = Some 500 \<and>
   fy (snd (fold on_drag [pointer 0 300 400, pointer 0 500 500]
              (on_start (pointer 0 100 200) (settled_sim, free_datum)))) = Some 500 \<and>
   alphaTarget (fst (on_end (pointer 0 500 500)
      (fold on_drag [pointer 0 300 400, pointer 0 500 500]
              (on_start (pointer 0 100 200) (settled_sim, free_datum))))) = 0 \<and>
   fx (snd (on_end (pointer 0 500 500)
      (fold on_drag [pointer 0 300 400, pointer 0 500 500]
              (on_start (pointer 0 100 200) (settled_sim, free_datum))))) = None"
proof -
  have h1: "event_active (pointer 0 100 200) = 0" and h3: "event_active (pointer 0 500 500) = 0"
    and h2: "[pointer 0 300 400, pointer 0 500 500] \<noteq> []"
    and l: "last [pointer 0 300 400, pointer 0 500 500] = pointer 0 500 500"
    and p: "event_x (pointer 0 500 500) = 500" "event_y (pointer 0 500 500) = 500"
    by (simp_all add: pointer_def)
  from C5_drag_gesture [of "pointer 0 100 200" settled_sim free_datum
        "[pointer 0 300 400, pointer 0 500 500]" "pointer 0 500 500"] h1 h2 h3
  show ?thesis unfolding Let_def l p by simp
qed

text \<open>
  When a second gesture is still active, the end of the first leaves the target alpha at
  0.3; and a node at (100, 200) that is dragged to (500, 500) and released with no tick
  in between is still at (100, 200).
\<close>

theorem C5_counterexample:
  "alphaTarget (fst (on_end (pointer 1 500 500)
       (settled_sim\<lparr>alphaTarget := 0.3, running := True\<rparr>,
        free_datum\<lparr>fx := Some 500, fy := Some 500\<rparr>))) = 0.3
   \<and> node_x (snd (on_end (pointer 0 500 500) (on_drag (pointer 0 500 500)
        (on_start (pointer 0 100 200) (settled_sim, free_datum))))) = 100
   \<and> node_y (snd (on_end (pointer 0 500 500) (on_drag (pointer 0 500 500)
        (on_start (pointer 0 100 200) (settled_sim, free_datum))))) = 200"
  by (simp add: drag_defs pointer_def settled_sim_def free_datum_def)

section \<open>Properties of the effect (C2)\<close>

lemma render_data_grows:
  "\<exists>sims groups. simulations (snd (render_data cur data v)) = simulations v @ sims \<and>
                 svg (snd (render_data cur data v)) = svg v @ groups"
  by (simp add: render_data_def Let_def split: sum.splits)

lemma renderGraph_try_grows:
  "\<exists>sims groups. simulations (snd (renderGraph_try cur fetched v)) = simulations v @ sims \<and>
                 svg (snd (renderGraph_try cur fetched v)) = svg v @ groups"
  unfolding renderGraph_try_def render_data_def Let_def
  by (simp split: sum.splits prod.splits)

lemma renderGraph_resume_grows:
  "\<exists>sims groups. simulations (renderGraph_resume cur fetched v) = simulations v @ sims \<and>
                 svg (renderGraph_resume cur fetched v) = svg v @ groups"
proof -
  obtain r v' where t: "renderGraph_try cur fetched v = (r, v')"
    by (cases "renderGraph_try cur fetched v")
  with renderGraph_try_grows [of cur fetched v]
  obtain sims groups where "simulations v' = simulations v @ sims" "svg v' = svg v @ groups"
    by auto
  with t show ?thesis
    by (cases r) (simp_all add: renderGraph_resume_def)
qed

lemma step_grows:
  "\<exists>sims groups. simulations (view_of (step ev s)) = simulations (view_of s) @ sims \<and>
                 svg (view_of (step ev s)) = svg (view_of s) @ groups"
proof (cases ev)
  case (Settled i fetched)
  with renderGraph_resume_grows [of "svgRef s" fetched "view_of s"]
  show ?thesis by (auto simp: Let_def)
qed (simp_all add: useEffect_run_def)

lemma run_grows:
  "\<exists>sims groups. simulations (view_of (run evs s)) = simulations (view_of s) @ sims \<and>
                 svg (view_of (run evs s)) = svg (view_of s) @ groups"
proof (induction evs arbitrary: s)
  case Nil
  then show ?case by (simp add: run_def)
next
  case (Cons ev evs)
  from step_grows [of ev s] obtain a b where
    1: "simulations (view_of (step ev s)) = simulations (view_of s) @ a"
       "svg (view_of (step ev s)) = svg (view_of s) @ b" by blast
  from Cons.IH [of "step ev s"] obtain a' b' where
    2: "simulations (view_of (run evs (step ev s))) = simulations (view_of (step ev s)) @ a'"
       "svg (view_of (run evs (step ev s))) = svg (view_of (step ev s)) @ b'" by blast
  have "run (ev # evs) s = run evs (step ev s)" by (simp add: run_def)
  with 1 2 show ?case by simp
qed

lemma run_snoc: "run (evs @ [ev]) s = step ev (run evs s)"
  by (simp add: run_def)

lemma settled_ignores_dataUrl:
  "view_of (step (Settled k fetched) (s\<lparr>dataUrl := u\<rparr>)) = view_of (step (Settled k fetched) s)"
  by (simp add: Let_def)

lemma loaded_eval:
  "loaded = \<lparr>dataUrl = ''/a.json'', svgRef = True, inflight = [],
     view_of = \<lparr>console_of = [],
       simulations = [\<lparr>sim_nodes = [node_of (Number ''1''), node_of (Number ''2'')],
          sim_links = [\<lparr>source = ''1'', target = ''2'', type_link = JStr related_tag\<rparr>],
          alphaTarget = 0, running = True, tick_listener = True\<rparr>],
       svg = [Lines [\<lparr>source = ''1'', target = ''2'', type_link = JStr related_tag\<rparr>],
              Circles [node_of (Number ''1''), node_of (Number ''2'')],
              Texts [''Node 1 [Entity]'', ''Node 2 [Entity]'']]\<rparr>,
     history = [Commit ''/a.json'']\<rparr>"
  by (simp add: loaded_def event_defs render_defs eval_defs Let_def)

text \<open>
  C2, as amended.  The effect registers no cleanup and applies no guard.  Through any
  sequence of events (new \<open>dataUrl\<close>, unmount, settled fetches, ticks) the simulations
  and the drawing of the view are only ever extended; a simulation with a tick listener
  still delivers its ticks afterwards; the view produced by a settling fetch does not
  depend on the current \<open>dataUrl\<close>; and a new \<open>dataUrl\<close> on a mounted component
  starts one more load.
\<close>

theorem C2_no_teardown_no_guard:
  "(\<exists>sims groups. simulations (view_of (run evs s)) = simulations (view_of s) @ sims \<and>
                  svg (view_of (run evs s)) = svg (view_of s) @ groups)
   \<and> (i < length (simulations (view_of s)) \<and> tick_listener (simulations (view_of s) ! i) \<longrightarrow>
        history (run (evs @ [Tick i]) s) = history (run evs s) @ [Tick_delivered i])
   \<and> view_of (step (Settled k fetched) (s\<lparr>dataUrl := u\<rparr>)) = view_of (step (Settled k fetched) s)
   \<and> (svgRef s \<and> u \<noteq> dataUrl s \<longrightarrow>
        inflight (step (SetDataUrl u) s) = inflight s @ [u] \<and> dataUrl (step (SetDataUrl u) s) = u)"
proof -
  have A: "\<exists>sims groups. simulations (view_of (run evs s)) = simulations (view_of s) @ sims \<and>
                  svg (view_of (run evs s)) = svg (view_of s) @ groups"
    by (rule run_grows)
  have B: "i < length (simulations (view_of s)) \<and> tick_listener (simulations (view_of s) ! i) \<longrightarrow>
        history (run (evs @ [Tick i]) s) = history (run evs s) @ [Tick_delivered i]"
  proof
    assume h: "i < length (simulations (view_of s)) \<and> tick_listener (simulations (view_of s) ! i)"
    from A obtain sims where
      g: "simulations (view_of (run evs s)) = simulations (view_of s) @ sims" by blast
    from h g have "i < length (simulations (view_of (run evs s)))"
      and "tick_listener (simulations (view_of (run evs s)) ! i)"
      by (simp_all add: nth_append)
    then show "history (run (evs @ [Tick i]) s) = history (run evs s) @ [Tick_delivered i]"
      by (simp add: run_snoc)
  qed
  have C: "view_of (step (Settled k fetched) (s\<lparr>dataUrl := u\<rparr>)) = view_of (step (Settled k fetched) s)"
    by (rule settled_ignores_dataUrl)
  have D: "svgRef s \<and> u \<noteq> dataUrl s \<longrightarrow>
        inflight (step (SetDataUrl u) s) = inflight s @ [u] \<and> dataUrl (step (SetDataUrl u) s) = u"
    by (simp add: useEffect_run_def)
  from A B C D show ?thesis by blast
qed

theorem C2_no_teardown_no_guard_witness:
  "0 < length (simulations (view_of loaded)) \<and> tick_listener (simulations (view_of loaded) ! 0)
   \<and> svgRef loaded \<and> ''/b.json'' \<noteq> dataUrl loaded
   \<and> history (run ([SetDataUrl ''/b.json'', Unmount] @ [Tick 0]) loaded)
       = history (run [SetDataUrl ''/b.json'', Unmount] loaded) @ [Tick_delivered 0]
   \<and> inflight (step (SetDataUrl ''/b.json'') loaded) = inflight loaded @ [''/b.json'']"
proof -
  have h1: "0 < length (simulations (view_of loaded)) \<and> tick_listener (simulations (view_of loaded) ! 0)"
    by (simp add: loaded_eval)
  have h2: "svgRef loaded \<and> ''/b.json'' \<noteq> dataUrl loaded"
    by (simp add: loaded_eval)
  from C2_no_teardown_no_guard [of "[SetDataUrl ''/b.json'', Unmount]" loaded 0 _ _ "''/b.json''"] h1 h2
  show ?thesis by blast
qed

text \<open>
  After the graph of \<open>/a.json\<close> is shown and \<open>dataUrl\<close> becomes \<open>/b.json\<close>, a tick
  of the first simulation is still delivered; and when \<open>dataUrl\<close> changes while the
  fetch for \<open>/a.json\<close> is in flight, that fetch still commits its graph although the
  current \<open>dataUrl\<close> is \<open>/b.json\<close>.
\<close>

theorem C2_counterexample:
  "history (run [Mount, Settled 0 (ok_response (JArr [row (JNum (Number ''1'')) (JNum (Number ''2''))])),
                 SetDataUrl ''/b.json''] (initial ''/a.json'')) = [Commit ''/a.json'']
   \<and> history (run [Mount, Settled 0 (ok_response (JArr [row (JNum (Number ''1'')) (JNum (Number ''2''))])),
                 SetDataUrl ''/b.json'', Tick 0] (initial ''/a.json''))
       = [Commit ''/a.json'', Tick_delivered 0]
   \<and> inflight (run [Mount, SetDataUrl ''/b.json''] (initial ''/a.json'')) = [''/a.json'', ''/b.json'']
   \<and> dataUrl (run [Mount, SetDataUrl ''/b.json'',
                    Settled 0 (ok_response (JArr [row (JNum (Number ''1'')) (JNum (Number ''2''))]))] (initial ''/a.json''))
       = ''/b.json''
   \<and> history (run [Mount, SetDataUrl ''/b.json'',
                    Settled 0 (ok_response (JArr [row (JNum (Number ''1'')) (JNum (Number ''2''))]))] (initial ''/a.json''))
       = [Commit ''/a.json'']
   \<and> length (simulations (view_of (run [Mount, SetDataUrl ''/b.json'',
                    Settled 0 (ok_response (JArr [row (JNum (Number ''1'')) (JNum (Number ''2''))]))] (initial ''/a.json'')))) = 1"
  by (simp add: event_defs render_defs eval_defs Let_def)

end
